theory Spec2Isabelle
  imports Main "HOL-Library.AList"
begin

section \<open>JavaScript values\<close>

text \<open>
  The values the base data type handles. The base \<^verbatim>\<open>DataType\<close> only tests a value with
  \<^verbatim>\<open>typeof v == 'undefined'\<close>, \<^verbatim>\<open>v === null\<close>, \<^verbatim>\<open>v === w\<close>, truthiness, and
  \<^verbatim>\<open>v.toString\<close>, so an object is represented by its identity (objects are compared by
  reference) and by what its \<^verbatim>\<open>toString\<close> property gives: \<open>None\<close> when the
  property is missing or falsy, \<open>Some s\<close> when calling it returns \<open>s\<close>. Such an object has
  no other method. Numbers are \<^verbatim>\<open>NaN\<close> and the integers that a JavaScript number
  holds exactly.
\<close>

datatype jsval =
    JUndefined
  | JNull
  | JBool bool
  | JNum int
  | JNaN
  | JStr string
  | JObject nat "string option"

text \<open>\<^verbatim>\<open>typeof v == 'undefined'\<close>\<close>

fun is_undefined :: "jsval \<Rightarrow> bool" where
  "is_undefined JUndefined = True"
| "is_undefined _ = False"

text \<open>Truthiness: what \<^verbatim>\<open>if (v)\<close>, \<^verbatim>\<open>!v\<close> and \<^verbatim>\<open>v && w\<close> test.\<close>

fun truthy :: "jsval \<Rightarrow> bool" where
  "truthy JUndefined = False"
| "truthy JNull = False"
| "truthy (JBool b) = b"
| "truthy (JNum n) = (n \<noteq> 0)"
| "truthy JNaN = False"
| "truthy (JStr s) = (s \<noteq> [])"
| "truthy (JObject _ _) = True"

text \<open>
  Strict equality \<^verbatim>\<open>v === w\<close>: primitives by value, except that \<^verbatim>\<open>NaN\<close> equals
  nothing, itself included; objects by reference.
\<close>

fun strict_eq :: "jsval \<Rightarrow> jsval \<Rightarrow> bool" where
  "strict_eq JNaN _ = False"
| "strict_eq _ JNaN = False"
| "strict_eq (JObject i _) (JObject j _) = (i = j)"
| "strict_eq v w = (v = w)"

subsection \<open>String forms\<close>

definition digit_char :: "nat \<Rightarrow> char" where
  "digit_char d = ''0123456789'' ! d"

function string_of_nat :: "nat \<Rightarrow> string" where
  "string_of_nat n =
     (if n < 10 then [digit_char n] else string_of_nat (n div 10) @ [digit_char (n mod 10)])"
  by pat_completeness auto
termination
  by (relation "measure (\<lambda>n. n)") auto

declare string_of_nat.simps [simp del]

definition string_of_int :: "int \<Rightarrow> string" where
  "string_of_int i =
     (if i < 0 then CHR ''-'' # string_of_nat (nat (- i)) else string_of_nat (nat i))"

text \<open>
  \<^verbatim>\<open>v.toString\<close> looked up on a value that is not \<^verbatim>\<open>undefined\<close> or \<^verbatim>\<open>null\<close>:
  booleans, numbers and strings inherit one from their prototype, an object has the one
  it carries. \<open>has_toString\<close> is the truthiness of the property, \<open>toString\<close> the result of
  the call (decimal digits for a number, as JavaScript prints integers below \<open>10\<^sup>2\<^sup>1\<close>).
\<close>

fun has_toString :: "jsval \<Rightarrow> bool" where
  "has_toString JUndefined = False"
| "has_toString JNull = False"
| "has_toString (JObject _ ts) = (ts \<noteq> None)"
| "has_toString _ = True"

fun toString :: "jsval \<Rightarrow> string" where
  "toString (JBool b) = (if b then ''true'' else ''false'')"
| "toString (JNum n) = string_of_int n"
| "toString JNaN = ''NaN''"
| "toString (JStr s) = s"
| "toString (JObject _ (Some s)) = s"
| "toString _ = []"

section \<open>The base data type\<close>

text \<open>
  The option set of a data type: each entry is there or not
  (\<^verbatim>\<open>this.options.get(key, notSet)\<close> gives \<^verbatim>\<open>notSet\<close> only for a missing key).
\<close>

record options =
  required :: "jsval option"
  unique :: "jsval option"
  generated :: "jsval option"
  excluded :: "jsval option"
  defaultValue :: "jsval option"
  validator :: "(jsval \<Rightarrow> jsval \<Rightarrow> jsval) option"
  validationLinks :: "string list option"

record data_type =
  name :: string
  options :: options

text \<open>The catalogue entry \<^verbatim>\<open>validationErrors.required\<close>.\<close>

definition validationErrors_required :: string where
  "validationErrors_required = ''This field is required''"

text \<open>
  Modelled from the spec: the class \<^verbatim>\<open>ValidationError\<close>, whose file is not among the
  sources. A validation error is a message from the catalogue, the offending data type and
  the offending value: the three arguments of \<^verbatim>\<open>new ValidationError(message, this, value)\<close>.
\<close>

record validation_error =
  message :: string
  field :: data_type
  badValue :: jsval

definition get_or :: "jsval option \<Rightarrow> jsval \<Rightarrow> jsval" where
  "get_or entry notSet = (case entry of None \<Rightarrow> notSet | Some v \<Rightarrow> v)"

definition isRequired :: "data_type \<Rightarrow> jsval" where
  "isRequired t = get_or (required (options t)) (JBool False)"

definition isUnique :: "data_type \<Rightarrow> jsval" where
  "isUnique t = get_or (unique (options t)) (JBool False)"

definition isGenerated :: "data_type \<Rightarrow> jsval" where
  "isGenerated t = get_or (generated (options t)) (JBool False)"

definition isExcluded :: "data_type \<Rightarrow> jsval" where
  "isExcluded t = get_or (excluded (options t)) (JBool False)"

text \<open>
  \<^verbatim>\<open>getDefaultValue(defaultValue = null)\<close>: the default parameter replaces a missing or
  \<^verbatim>\<open>undefined\<close> argument by \<^verbatim>\<open>null\<close>.
\<close>

definition getDefaultValue :: "data_type \<Rightarrow> jsval \<Rightarrow> jsval" where
  "getDefaultValue t arg =
     (let fallback = (if is_undefined arg then JNull else arg);
          optionsDefaultValue = get_or (defaultValue (options t)) JUndefined
      in if is_undefined optionsDefaultValue then fallback else optionsDefaultValue)"

definition hasValue :: "data_type \<Rightarrow> jsval \<Rightarrow> bool \<Rightarrow> bool" where
  "hasValue t v checkDefault =
     (if is_undefined v \<or> v = JNull \<or> (strict_eq v (getDefaultValue t JUndefined) \<and> checkDefault)
      then False else True)"

text \<open>\<^verbatim>\<open>values.find(value => typeof value != 'undefined')\<close>, \<^verbatim>\<open>undefined\<close> when none is.\<close>

fun find_defined :: "jsval list \<Rightarrow> jsval" where
  "find_defined [] = JUndefined"
| "find_defined (v # vs) = (if \<not> is_undefined v then v else find_defined vs)"

definition getValue :: "data_type \<Rightarrow> jsval \<Rightarrow> jsval \<Rightarrow> jsval" where
  "getValue t v fallback =
     find_defined (if truthy (isGenerated t) then [v] else [v, getDefaultValue t fallback])"

definition getDisplay :: "data_type \<Rightarrow> jsval \<Rightarrow> string" where
  "getDisplay t v0 =
     (let v = getValue t v0 JUndefined
      in if truthy v \<and> has_toString v then toString v else [])"

text \<open>
  What \<^verbatim>\<open>validate\<close> returns: \<^verbatim>\<open>undefined\<close> (no error), a validation error, or
  whatever the callback returned. The callback argument is \<open>None\<close> when it is missing,
  \<open>Some r\<close> for a function that returns \<open>r\<close>.
\<close>

datatype 'r outcome = NoError | Error validation_error | Returned 'r

definition validate :: "data_type \<Rightarrow> jsval \<Rightarrow> 'r option \<Rightarrow> 'r outcome" where
  "validate t v0 callback =
     (let v = getValue t v0 JUndefined
      in if strict_eq v (getDefaultValue t JUndefined) \<and> hasValue t v False then NoError
         else if \<not> hasValue t v False then
           (if truthy (isGenerated t) then NoError
            else if truthy (isRequired t) then
              Error \<lparr>message = validationErrors_required, field = t, badValue = v\<rparr>
            else NoError)
         else (case callback of Some r \<Rightarrow> Returned r | None \<Rightarrow> NoError))"

definition exclude :: "data_type \<Rightarrow> jsval \<Rightarrow> jsval" where
  "exclude t model = (if truthy (isExcluded t) then JUndefined else model)"

text \<open>
  The constructor keeps \<^verbatim>\<open>Immutable.fromJS(options || {})\<close>: without options, the empty
  option set.
\<close>

definition no_options :: options where
  "no_options =
     \<lparr>required = None, unique = None, generated = None, excluded = None,
      defaultValue = None, validator = None, validationLinks = None\<rparr>"

section \<open>Values addressed by refs\<close>

text \<open>
  A ref reads and writes inside containers, so here a value is a scalar of the kind above
  or a container given by its contents: a plain JavaScript array (mutable, not part of the
  persistent substrate), an \<^verbatim>\<open>Immutable.List\<close> or an \<^verbatim>\<open>Immutable.Map\<close> (its entries in
  iteration order). \<^verbatim>\<open>refs.js\<close> never compares containers by reference.
\<close>

datatype cval =
    Scalar jsval
  | JArray "cval list"
  | IList "cval list"
  | IMap "(jsval \<times> cval) list"

abbreviation undefinedC :: cval where
  "undefinedC \<equiv> Scalar JUndefined"

abbreviation nullC :: cval where
  "nullC \<equiv> Scalar JNull"

fun is_truthy :: "cval \<Rightarrow> bool" where
  "is_truthy (Scalar v) = truthy v"
| "is_truthy _ = True"

text \<open>\<^verbatim>\<open>Immutable.isImmutable(v)\<close> and \<^verbatim>\<open>List.isList(v)\<close>\<close>

fun isImmutable :: "cval \<Rightarrow> bool" where
  "isImmutable (IList _) = True"
| "isImmutable (IMap _) = True"
| "isImmutable _ = False"

fun isList :: "cval \<Rightarrow> bool" where
  "isList (IList _) = True"
| "isList _ = False"

text \<open>
  What a call can throw: the four \<^verbatim>\<open>new Error(...)\<close> of \<^verbatim>\<open>refs.js\<close> that the ref
  operations reach, and the \<^verbatim>\<open>TypeError\<close> of the runtime for a method call on a value
  that has no such method.
\<close>

datatype js_error =
    CannotSetOnNull
  | NonListDataType
  | NonListValue
  | NotYetImplemented
  | TypeError

subsection \<open>Container methods\<close>

text \<open>
  The methods of the Immutable.js collections and of plain arrays that \<^verbatim>\<open>refs.js\<close>
  calls. Immutable.js is a library the repository depends on, not part of its sources:
  the definitions follow the behaviour of the library and of the language. A scalar has
  none of these methods, and calling one on it is a \<^verbatim>\<open>TypeError\<close>.
\<close>

definition indices :: "'a list \<Rightarrow> cval list" where
  "indices xs = map (\<lambda>i. Scalar (JNum (int i))) [0..<length xs]"

text \<open>\<^verbatim>\<open>c.map((item, index) => f item index)\<close>; on a map the second argument is the key.\<close>

fun js_map :: "(cval \<Rightarrow> cval \<Rightarrow> cval) \<Rightarrow> cval \<Rightarrow> js_error + cval" where
  "js_map f (IList xs) = Inr (IList (map2 f xs (indices xs)))"
| "js_map f (JArray xs) = Inr (JArray (map2 f xs (indices xs)))"
| "js_map f (IMap m) = Inr (IMap (map (\<lambda>(k, v). (k, f v (Scalar k))) m))"
| "js_map f (Scalar _) = Inl TypeError"

text \<open>\<^verbatim>\<open>c.filter(item => p item)\<close>: the items whose result is truthy, in order.\<close>

fun js_filter :: "(cval \<Rightarrow> cval) \<Rightarrow> cval \<Rightarrow> js_error + cval" where
  "js_filter p (IList xs) = Inr (IList (filter (\<lambda>x. is_truthy (p x)) xs))"
| "js_filter p (JArray xs) = Inr (JArray (filter (\<lambda>x. is_truthy (p x)) xs))"
| "js_filter p (IMap m) = Inr (IMap (filter (\<lambda>(k, v). is_truthy (p v)) m))"
| "js_filter p (Scalar _) = Inl TypeError"

text \<open>\<^verbatim>\<open>c.find(item => p item)\<close>: the first such item, \<^verbatim>\<open>undefined\<close> when there is none.\<close>

definition first_or_undefined :: "(cval \<Rightarrow> cval) \<Rightarrow> cval list \<Rightarrow> cval" where
  "first_or_undefined p xs =
     (case List.find (\<lambda>x. is_truthy (p x)) xs of None \<Rightarrow> undefinedC | Some x \<Rightarrow> x)"

fun js_find :: "(cval \<Rightarrow> cval) \<Rightarrow> cval \<Rightarrow> js_error + cval" where
  "js_find p (IList xs) = Inr (first_or_undefined p xs)"
| "js_find p (JArray xs) = Inr (first_or_undefined p xs)"
| "js_find p (IMap m) = Inr (first_or_undefined p (map snd m))"
| "js_find p (Scalar _) = Inl TypeError"

text \<open>
  \<^verbatim>\<open>c.findIndex(item => p item)\<close>: the items are tried from index 0 upwards, the first
  index with a truthy result is returned, \<open>-1\<close> when there is none. Only indexed
  collections have the method.
\<close>

fun findIndex_from :: "int \<Rightarrow> (cval \<Rightarrow> cval) \<Rightarrow> cval list \<Rightarrow> int" where
  "findIndex_from i p [] = - 1"
| "findIndex_from i p (x # xs) = (if is_truthy (p x) then i else findIndex_from (i + 1) p xs)"

fun js_findIndex :: "(cval \<Rightarrow> cval) \<Rightarrow> cval \<Rightarrow> js_error + int" where
  "js_findIndex p (IList xs) = Inr (findIndex_from 0 p xs)"
| "js_findIndex p (JArray xs) = Inr (findIndex_from 0 p xs)"
| "js_findIndex p _ = Inl TypeError"

text \<open>
  \<^verbatim>\<open>c.includes(v)\<close> on the result of a \<^verbatim>\<open>map\<close>, which is always a collection: whether
  \<open>v\<close> is among its values.
\<close>

fun elements :: "cval \<Rightarrow> cval list" where
  "elements (IList xs) = xs"
| "elements (JArray xs) = xs"
| "elements (IMap m) = map snd m"
| "elements (Scalar _) = []"

definition js_includes :: "cval \<Rightarrow> cval \<Rightarrow> bool" where
  "js_includes c v = (v \<in> set (elements c))"

text \<open>
  The array pattern \<^verbatim>\<open>([a, b]) => ...\<close> applied to a plain array: its element at a
  position, \<^verbatim>\<open>undefined\<close> beyond the end.
\<close>

fun element_at :: "cval \<Rightarrow> nat \<Rightarrow> cval" where
  "element_at (JArray xs) i = (if i < length xs then xs ! i else undefinedC)"
| "element_at _ i = undefinedC"

subsection \<open>Keyed access\<close>

text \<open>
  \<^verbatim>\<open>Immutable.List\<close> turns a key into an index before \<^verbatim>\<open>get\<close> and \<^verbatim>\<open>set\<close>
  (its \<^verbatim>\<open>wrapIndex\<close>): a number is taken as it is and counted from the end when
  negative; any other key must be an array index written as a string, that is
  \<^verbatim>\<open>'' + (key >>> 0) === key\<close> with \<^verbatim>\<open>key >>> 0\<close> not \<open>2\<^sup>3\<^sup>2 - 1\<close>, and gives
  \<^verbatim>\<open>NaN\<close> (here \<open>None\<close>) otherwise. The string \<^verbatim>\<open>'' + (key >>> 0)\<close> has digits
  only, so a key with any other character, and a key that is no string, is no index; for
  a string of digits \<^verbatim>\<open>key >>> 0\<close> is its number modulo \<open>2\<^sup>3\<^sup>2\<close>.
\<close>

definition is_digit :: "char \<Rightarrow> bool" where
  "is_digit c = ((48::nat) \<le> of_char c \<and> (of_char c :: nat) \<le> 57)"

definition nat_of_digits :: "string \<Rightarrow> nat" where
  "nat_of_digits s = foldl (\<lambda>n c. 10 * n + ((of_char c :: nat) - 48)) 0 s"

definition array_index :: "string \<Rightarrow> nat option" where
  "array_index s =
     (if list_all is_digit s
      then (let uint32Index = nat_of_digits s mod 4294967296
            in if string_of_nat uint32Index \<noteq> s \<or> uint32Index = 4294967295 then None
               else Some uint32Index)
      else None)"

fun wrapIndex :: "cval list \<Rightarrow> jsval \<Rightarrow> int option" where
  "wrapIndex xs (JNum i) = Some (if i < 0 then int (length xs) + i else i)"
| "wrapIndex xs (JStr s) = map_option int (array_index s)"
| "wrapIndex xs _ = None"

text \<open>
  \<^verbatim>\<open>list.get(key)\<close> only reads: the item at an index inside the list, \<^verbatim>\<open>undefined\<close>
  for every other index and for a key that is no index.
\<close>

definition list_get :: "cval list \<Rightarrow> jsval \<Rightarrow> cval" where
  "list_get xs key =
     (case wrapIndex xs key of
        None \<Rightarrow> undefinedC
      | Some i \<Rightarrow> if 0 \<le> i \<and> i < int (length xs) then xs ! nat i else undefinedC)"

text \<open>
  \<^verbatim>\<open>list.set(key, v)\<close>: the list itself for a key that is no index, the list with the
  item replaced for an index inside the list. For an index outside the list the library
  goes on to change the bounds of the list (its \<^verbatim>\<open>setListBounds\<close>, which cuts the bounds
  to 32 bits): it may return a longer list, overwrite an item or fail. That part of the
  library is not among the sources and is taken as a parameter: a function of the list,
  the index after wrapping and the value.
\<close>

type_synonym list_growth = "cval list \<Rightarrow> int \<Rightarrow> cval \<Rightarrow> js_error + cval list"

definition list_set :: "list_growth \<Rightarrow> cval list \<Rightarrow> jsval \<Rightarrow> cval \<Rightarrow> js_error + cval list" where
  "list_set grow xs key v =
     (case wrapIndex xs key of
        None \<Rightarrow> Inr xs
      | Some i \<Rightarrow>
          if 0 \<le> i \<and> i < int (length xs) then Inr (xs[nat i := v])
          else grow xs i v)"

text \<open>
  \<^verbatim>\<open>c.get(key)\<close>. A map compares keys by value (\<^verbatim>\<open>Immutable.is\<close>) and gives
  \<^verbatim>\<open>undefined\<close> for a missing key.
\<close>

fun js_get :: "cval \<Rightarrow> jsval \<Rightarrow> js_error + cval" where
  "js_get (IMap m) key = Inr (case map_of m key of None \<Rightarrow> undefinedC | Some v \<Rightarrow> v)"
| "js_get (IList xs) key = Inr (list_get xs key)"
| "js_get _ key = Inl TypeError"

text \<open>
  The two methods that write return a pair: the receiver as it is after the call, and the
  value returned. \<^verbatim>\<open>set\<close> and \<^verbatim>\<open>push\<close> of a persistent collection leave the receiver as
  it was and return the new collection; \<^verbatim>\<open>push\<close> of a plain array changes the array and
  returns its new length.
\<close>

fun js_set :: "list_growth \<Rightarrow> cval \<Rightarrow> jsval \<Rightarrow> cval \<Rightarrow> js_error + cval \<times> cval" where
  "js_set grow (IMap m) key v = Inr (IMap m, IMap (AList.update key v m))"
| "js_set grow (IList xs) key v =
     (case list_set grow xs key v of
        Inl e \<Rightarrow> Inl e
      | Inr ys \<Rightarrow> Inr (IList xs, IList ys))"
| "js_set grow _ key v = Inl TypeError"

fun js_push :: "cval \<Rightarrow> cval \<Rightarrow> js_error + cval \<times> cval" where
  "js_push (IList xs) v = Inr (IList xs, IList (xs @ [v]))"
| "js_push (JArray xs) v = Inr (JArray (xs @ [v]), Scalar (JNum (int (length xs) + 1)))"
| "js_push _ v = Inl TypeError"

section \<open>Refs\<close>

text \<open>
  Modelled from the spec: the list data type \<^verbatim>\<open>Types.data.list\<close>, whose file is not
  among the sources. The data type that owns the value a ref addresses is a list-shaped
  data type, which owns the data type of its items and gives it with \<^verbatim>\<open>getItemType()\<close>,
  or another data type, which like the base data type has no such method.
\<close>

datatype owner_type =
    ScalarType string
  | ListType string owner_type

fun getItemType :: "owner_type \<Rightarrow> js_error + owner_type" where
  "getItemType (ListType _ itemType) = Inr itemType"
| "getItemType (ScalarType _) = Inl TypeError"

text \<open>
  \<^verbatim>\<open>x instanceof Types.data.list\<close>, for a primitive (\<open>Inl\<close>) and for a data type
  (\<open>Inr\<close>): a primitive is an instance of nothing.
\<close>

fun instanceof_list :: "jsval + owner_type \<Rightarrow> bool" where
  "instanceof_list (Inl _) = False"
| "instanceof_list (Inr (ListType _ _)) = True"
| "instanceof_list (Inr (ScalarType _)) = False"

text \<open>
  \<^verbatim>\<open>new RenderData(dataType, dataValue, options)\<close> keeps its three arguments. The view
  evaluator \<^verbatim>\<open>valueRenderers.getValue(view, renderData)\<close> is not among the sources: the
  ref operations take it as a parameter.
\<close>

record 'o render_data =
  dataType :: owner_type
  dataValue :: cval
  renderOptions :: 'o

type_synonym ('v, 'o) evaluator = "'v \<Rightarrow> 'o render_data \<Rightarrow> cval"

text \<open>The ref classes, each with the field its constructor sets.\<close>

datatype 'v ref =
    ImmutableRef jsval
  | ImmutableViewRef "'v option"
  | ImmutableListRef 'v
  | ImmutableListFindRef 'v
  | ImmutableListFilterRef 'v
  | ImmutableListMapRef 'v

fun isListRef :: "'v ref \<Rightarrow> bool" where
  "isListRef (ImmutableRef _) = False"
| "isListRef (ImmutableViewRef _) = False"
| "isListRef _ = True"

text \<open>
  \<^verbatim>\<open>isSingleRef\<close> is \<^verbatim>\<open>true\<close> in \<^verbatim>\<open>ImmutableRef\<close> and overridden to \<^verbatim>\<open>false\<close> in the
  filter and map refs; \<^verbatim>\<open>isMultiRef\<close> is defined once, as \<^verbatim>\<open>!this.isSingleRef()\<close>.
\<close>

fun isSingleRef :: "'v ref \<Rightarrow> bool" where
  "isSingleRef (ImmutableListFilterRef _) = False"
| "isSingleRef (ImmutableListMapRef _) = False"
| "isSingleRef _ = True"

definition isMultiRef :: "'v ref \<Rightarrow> bool" where
  "isMultiRef r = (\<not> isSingleRef r)"

text \<open>The static \<^verbatim>\<open>method\<close> of a list ref class, missing in \<^verbatim>\<open>ImmutableListRef\<close> itself.\<close>

datatype list_method = Find | Filter | Map

fun constructor_method :: "'v ref \<Rightarrow> list_method option" where
  "constructor_method (ImmutableListFindRef _) = Some Find"
| "constructor_method (ImmutableListFilterRef _) = Some Filter"
| "constructor_method (ImmutableListMapRef _) = Some Map"
| "constructor_method _ = None"

subsection \<open>The direct-key ref and the view ref\<close>

definition ImmutableRef_getValue :: "jsval \<Rightarrow> cval \<Rightarrow> js_error + cval" where
  "ImmutableRef_getValue key dv =
     (if \<not> is_truthy dv then Inr nullC
      else if \<not> truthy key then Inr dv
      else js_get dv key)"

definition ImmutableRef_setValue ::
  "list_growth \<Rightarrow> jsval \<Rightarrow> cval \<Rightarrow> cval \<Rightarrow> js_error + cval \<times> cval" where
  "ImmutableRef_setValue grow key dv childValue =
     (if \<not> is_truthy dv then Inl CannotSetOnNull
      else if \<not> truthy key then Inr (dv, dv)
      else js_set grow dv key childValue)"

definition ImmutableViewRef_getValue ::
  "('v, 'o) evaluator \<Rightarrow> 'v option \<Rightarrow> owner_type \<Rightarrow> cval \<Rightarrow> 'o \<Rightarrow> js_error + cval" where
  "ImmutableViewRef_getValue ev view dt dv opts =
     (if \<not> is_truthy dv then Inr nullC
      else case view of
        None \<Rightarrow> Inr dv
      | Some w \<Rightarrow> Inr (ev w \<lparr>dataType = dt, dataValue = dv, renderOptions = opts\<rparr>))"

subsection \<open>The list refs\<close>

text \<open>
  \<^verbatim>\<open>checkValidData\<close>. Its first test is written \<^verbatim>\<open>!dataType instanceof Types.data.list\<close>,
  in which \<^verbatim>\<open>!\<close> binds first: the operand of \<^verbatim>\<open>instanceof\<close> is the boolean
  \<^verbatim>\<open>!dataType\<close>, and a data type, being an object, is truthy.
\<close>

definition not_type :: "owner_type \<Rightarrow> jsval" where
  "not_type dt = JBool False"

definition checkValidData :: "owner_type \<Rightarrow> cval \<Rightarrow> js_error + unit" where
  "checkValidData dt dv =
     (if instanceof_list (Inl (not_type dt)) then Inl NonListDataType
      else if \<not> is_truthy dv \<or> \<not> isImmutable dv then Inl NonListValue
      else Inr ())"

definition applyView :: "('v, 'o) evaluator \<Rightarrow> 'v \<Rightarrow> owner_type \<Rightarrow> cval \<Rightarrow> 'o \<Rightarrow> cval" where
  "applyView ev view itemType item opts =
     ev view \<lparr>dataType = itemType, dataValue = item, renderOptions = opts\<rparr>"

text \<open>\<^verbatim>\<open>list[this.constructor.method]((item, index) => this.applyView(...))\<close>\<close>

fun call_method :: "list_method \<Rightarrow> (cval \<Rightarrow> cval) \<Rightarrow> cval \<Rightarrow> js_error + cval" where
  "call_method Find p c = js_find p c"
| "call_method Filter p c = js_filter p c"
| "call_method Map p c = js_map (\<lambda>item index. p item) c"

definition ImmutableListRef_getValue ::
  "('v, 'o) evaluator \<Rightarrow> list_method option \<Rightarrow> 'v \<Rightarrow> owner_type \<Rightarrow> cval \<Rightarrow> 'o
     \<Rightarrow> js_error + cval" where
  "ImmutableListRef_getValue ev meth view listType list opts =
     (case checkValidData listType list of
        Inl e \<Rightarrow> Inl e
      | Inr _ \<Rightarrow>
          (case meth of
             None \<Rightarrow> Inr list
           | Some m \<Rightarrow>
               (case getItemType listType of
                  Inl e \<Rightarrow> Inl e
                | Inr itemType \<Rightarrow>
                    call_method m (\<lambda>item. applyView ev view itemType item opts) list)))"

text \<open>
  The \<^verbatim>\<open>setValue\<close> of each class returns the list as it is after the call, and the value
  returned. The \<^verbatim>\<open>console.warn\<close> for a new item that is a list changes neither.
\<close>

definition ImmutableListRef_setValue :: "cval \<Rightarrow> cval \<Rightarrow> js_error + cval \<times> cval" where
  "ImmutableListRef_setValue list newItem =
     (case js_map (\<lambda>item index. newItem) list of
        Inl e \<Rightarrow> Inl e
      | Inr r \<Rightarrow> Inr (list, r))"

definition ImmutableListFindRef_setValue ::
  "list_growth \<Rightarrow> ('v, 'o) evaluator \<Rightarrow> 'v \<Rightarrow> owner_type \<Rightarrow> cval \<Rightarrow> cval \<Rightarrow> 'o
     \<Rightarrow> js_error + cval \<times> cval" where
  "ImmutableListFindRef_setValue grow ev view listType list newItem opts =
     (case getItemType listType of
        Inl e \<Rightarrow> Inl e
      | Inr itemType \<Rightarrow>
          (case js_findIndex
                  (\<lambda>item. ev view \<lparr>dataType = itemType, dataValue = item, renderOptions = opts\<rparr>)
                  list of
             Inl e \<Rightarrow> Inl e
           | Inr index \<Rightarrow>
               if 0 \<le> index then js_set grow list (JNum index) newItem
               else js_push list newItem))"

definition ImmutableListFilterRef_setValue ::
  "('v, 'o) evaluator \<Rightarrow> 'v \<Rightarrow> owner_type \<Rightarrow> cval \<Rightarrow> cval \<Rightarrow> 'o
     \<Rightarrow> js_error + cval \<times> cval" where
  "ImmutableListFilterRef_setValue ev view listType list newItem opts =
     (case getItemType listType of
        Inl e \<Rightarrow> Inl e
      | Inr itemType \<Rightarrow>
          (case js_map (\<lambda>item index. JArray [index, item]) list of
             Inl e \<Rightarrow> Inl e
           | Inr pairs \<Rightarrow>
               (case js_filter
                       (\<lambda>pair. ev view \<lparr>dataType = itemType, dataValue = element_at pair 1,
                                        renderOptions = opts\<rparr>)
                       pairs of
                  Inl e \<Rightarrow> Inl e
                | Inr matching \<Rightarrow>
                    (case js_map (\<lambda>pair key. element_at pair 0) matching of
                       Inl e \<Rightarrow> Inl e
                     | Inr indexes \<Rightarrow>
                         (case js_map
                                 (\<lambda>item index. if js_includes indexes index then newItem else index)
                                 list of
                            Inl e \<Rightarrow> Inl e
                          | Inr r \<Rightarrow> Inr (list, r))))))"

subsection \<open>Method dispatch\<close>

fun ref_getValue ::
  "('v, 'o) evaluator \<Rightarrow> 'v ref \<Rightarrow> owner_type \<Rightarrow> cval \<Rightarrow> 'o \<Rightarrow> js_error + cval" where
  "ref_getValue ev (ImmutableRef key) dt dv opts = ImmutableRef_getValue key dv"
| "ref_getValue ev (ImmutableViewRef view) dt dv opts = ImmutableViewRef_getValue ev view dt dv opts"
| "ref_getValue ev (ImmutableListRef view) dt dv opts =
     ImmutableListRef_getValue ev (constructor_method (ImmutableListRef view)) view dt dv opts"
| "ref_getValue ev (ImmutableListFindRef view) dt dv opts =
     ImmutableListRef_getValue ev (constructor_method (ImmutableListFindRef view)) view dt dv opts"
| "ref_getValue ev (ImmutableListFilterRef view) dt dv opts =
     ImmutableListRef_getValue ev (constructor_method (ImmutableListFilterRef view)) view dt dv opts"
| "ref_getValue ev (ImmutableListMapRef view) dt dv opts =
     ImmutableListRef_getValue ev (constructor_method (ImmutableListMapRef view)) view dt dv opts"

fun ref_setValue ::
  "list_growth \<Rightarrow> ('v, 'o) evaluator \<Rightarrow> 'v ref \<Rightarrow> owner_type \<Rightarrow> cval \<Rightarrow> cval \<Rightarrow> 'o
     \<Rightarrow> js_error + cval \<times> cval" where
  "ref_setValue grow ev (ImmutableRef key) dt dv new opts = ImmutableRef_setValue grow key dv new"
| "ref_setValue grow ev (ImmutableViewRef view) dt dv new opts = Inl NotYetImplemented"
| "ref_setValue grow ev (ImmutableListRef view) dt dv new opts = ImmutableListRef_setValue dv new"
| "ref_setValue grow ev (ImmutableListFindRef view) dt dv new opts =
     ImmutableListFindRef_setValue grow ev view dt dv new opts"
| "ref_setValue grow ev (ImmutableListFilterRef view) dt dv new opts =
     ImmutableListFilterRef_setValue ev view dt dv new opts"
| "ref_setValue grow ev (ImmutableListMapRef view) dt dv new opts = Inl NotYetImplemented"

section \<open>Properties of the base data type\<close>

lemma is_undefined_iff: "is_undefined v = (v = JUndefined)"
  by (cases v) simp_all

lemma truthy_iff:
  "truthy v = (v \<notin> {JUndefined, JNull, JBool False, JNum 0, JNaN, JStr []})"
  by (cases v) auto

lemma getDefaultValue_unset:
  "defaultValue (options t) = None \<Longrightarrow> getDefaultValue t JUndefined = JNull"
  by (simp add: getDefaultValue_def get_or_def)

lemma getDefaultValue_set:
  "defaultValue (options t) = Some x \<Longrightarrow> x \<noteq> JUndefined \<Longrightarrow> getDefaultValue t a = x"
  by (simp add: getDefaultValue_def get_or_def is_undefined_iff)

lemma getValue_defined: "v \<noteq> JUndefined \<Longrightarrow> getValue t v a = v"
  by (simp add: getValue_def is_undefined_iff)

lemma hasValue_False_iff: "hasValue t v False = (v \<noteq> JUndefined \<and> v \<noteq> JNull)"
  by (simp add: hasValue_def is_undefined_iff)

text \<open>
  C3: for a data type without a \<^verbatim>\<open>defaultValue\<close> option and an absent value
  (\<^verbatim>\<open>undefined\<close> or \<^verbatim>\<open>null\<close>): with \<^verbatim>\<open>required = true\<close> and not generated,
  \<^verbatim>\<open>validate\<close> returns the validation error that carries the \<^verbatim>\<open>required\<close> message and
  this very type; with \<^verbatim>\<open>generated = true\<close> it returns no error. Neither depends on the
  callback.
\<close>

theorem validate_required_without_default:
  assumes "defaultValue (options t) = None" and "v = JUndefined \<or> v = JNull"
  shows "(required (options t) = Some (JBool True) \<and> \<not> truthy (isGenerated t) \<longrightarrow>
            validate t v callback =
              Error \<lparr>message = validationErrors_required, field = t, badValue = JNull\<rparr>)
       \<and> (generated (options t) = Some (JBool True) \<longrightarrow> validate t v callback = NoError)"
proof -
  have d: "getDefaultValue t JUndefined = JNull"
    using assms(1) by (rule getDefaultValue_unset)
  have absent: "\<not> hasValue t w False" if "w = JUndefined \<or> w = JNull" for w
    using that by (auto simp: hasValue_False_iff)
  show ?thesis
  proof (intro conjI impI)
    assume req: "required (options t) = Some (JBool True) \<and> \<not> truthy (isGenerated t)"
    then have e: "getValue t v JUndefined = JNull"
      using assms(2) d by (auto simp: getValue_def)
    from req have r: "truthy (isRequired t)"
      by (simp add: isRequired_def get_or_def)
    show "validate t v callback =
      Error \<lparr>message = validationErrors_required, field = t, badValue = JNull\<rparr>"
      using req r e absent [of JNull] by (simp add: validate_def Let_def)
  next
    assume gen: "generated (options t) = Some (JBool True)"
    then have g: "truthy (isGenerated t)"
      by (simp add: isGenerated_def get_or_def)
    then have e: "getValue t v JUndefined = v"
      using assms(2) by (auto simp: getValue_def)
    show "validate t v callback = NoError"
      using g e absent [OF assms(2)] by (simp add: validate_def Let_def)
  qed
qed

text \<open>
  The scenario of the spec: the schema \<^verbatim>\<open>{name: "email", options: {required: true}}\<close>
  on \<^verbatim>\<open>undefined\<close>, and the same schema with \<^verbatim>\<open>generated: true\<close> instead.
\<close>

theorem validate_required_without_default_witness:
  "validate \<lparr>name = ''email'', options = no_options\<lparr>required := Some (JBool True)\<rparr>\<rparr>
       JUndefined (None :: unit option)
     = Error \<lparr>message = ''This field is required'',
              field = \<lparr>name = ''email'', options = no_options\<lparr>required := Some (JBool True)\<rparr>\<rparr>,
              badValue = JNull\<rparr>
   \<and> validate \<lparr>name = ''email'', options = no_options\<lparr>generated := Some (JBool True)\<rparr>\<rparr>
       JUndefined (None :: unit option)
     = NoError"
  using
    validate_required_without_default
      [of "\<lparr>name = ''email'', options = no_options\<lparr>required := Some (JBool True)\<rparr>\<rparr>"
          JUndefined "None :: unit option"]
    validate_required_without_default
      [of "\<lparr>name = ''email'', options = no_options\<lparr>generated := Some (JBool True)\<rparr>\<rparr>"
          JUndefined "None :: unit option"]
  by (simp add: no_options_def isGenerated_def get_or_def validationErrors_required_def)

text \<open>
  C6, as the code has it. The option set holds \<open>x\<close> as its \<^verbatim>\<open>defaultValue\<close> (the value
  that \<^verbatim>\<open>this.options.get('defaultValue')\<close> gives), \<^verbatim>\<open>hasValue(x, false)\<close> is true and
  \<^verbatim>\<open>x === x\<close>, which holds for every value but \<^verbatim>\<open>NaN\<close>. Then \<^verbatim>\<open>validate\<close> on the
  value \<open>x\<close> itself returns no error at its first test: whatever the \<^verbatim>\<open>required\<close> and
  \<^verbatim>\<open>generated\<close> options are, and whatever callback is passed, which is never called.
\<close>

theorem validate_default_short_circuit:
  assumes "defaultValue (options t) = Some x" and "hasValue t x False" and "strict_eq x x"
  shows "validate t x callback = NoError"
proof -
  from assms(2) have x: "x \<noteq> JUndefined"
    by (simp add: hasValue_False_iff)
  have "getValue t x JUndefined = x"
    using x by (rule getValue_defined)
  moreover have "getDefaultValue t JUndefined = x"
    using assms(1) x by (rule getDefaultValue_set)
  ultimately show ?thesis
    using assms(2,3) by (simp add: validate_def Let_def)
qed

text \<open>
  A required type with the default \<^verbatim>\<open>"Paris"\<close>, validated on \<^verbatim>\<open>"Paris"\<close> with a
  callback that would return an error.
\<close>

theorem validate_default_short_circuit_witness:
  "hasValue \<lparr>name = ''city'',
             options = no_options\<lparr>required := Some (JBool True),
                                  defaultValue := Some (JStr ''Paris'')\<rparr>\<rparr> (JStr ''Paris'') False
   \<and> strict_eq (JStr ''Paris'') (JStr ''Paris'')
   \<and> validate \<lparr>name = ''city'',
               options = no_options\<lparr>required := Some (JBool True),
                                    defaultValue := Some (JStr ''Paris'')\<rparr>\<rparr>
        (JStr ''Paris'') (Some ''not a city'')
      = NoError"
  using validate_default_short_circuit
    [of "\<lparr>name = ''city'',
          options = no_options\<lparr>required := Some (JBool True),
                               defaultValue := Some (JStr ''Paris'')\<rparr>\<rparr>" "JStr ''Paris''"
        "Some ''not a city''"]
  by (simp add: no_options_def hasValue_False_iff)

text \<open>
  The default hypothesis is needed: a present value that is not the default goes on to
  the callback.
\<close>

lemma validate_present_not_default:
  assumes "hasValue t v False" and "\<not> strict_eq v (getDefaultValue t JUndefined)"
  shows "validate t v (Some r) = Returned r"
proof -
  from assms(1) have "v \<noteq> JUndefined"
    by (simp add: hasValue_False_iff)
  then have "getValue t v JUndefined = v"
    by (rule getValue_defined)
  then show ?thesis
    using assms by (simp add: validate_def Let_def)
qed

text \<open>
  C6, as the claim states it, fails for the default \<^verbatim>\<open>NaN\<close>: \<^verbatim>\<open>hasValue(NaN, false)\<close>
  is true, but \<^verbatim>\<open>NaN === NaN\<close> is false, so \<^verbatim>\<open>validate\<close> on \<^verbatim>\<open>NaN\<close> passes its first
  test by, reaches the absence check and then calls the callback, whose error it returns.
\<close>

theorem validate_default_nan_counterexample:
  "hasValue \<lparr>name = ''ratio'', options = no_options\<lparr>defaultValue := Some JNaN\<rparr>\<rparr> JNaN False
   \<and> validate \<lparr>name = ''ratio'', options = no_options\<lparr>defaultValue := Some JNaN\<rparr>\<rparr> JNaN
        (Some \<lparr>message = ''not a ratio'',
               field = \<lparr>name = ''ratio'', options = no_options\<lparr>defaultValue := Some JNaN\<rparr>\<rparr>,
               badValue = JNaN\<rparr>)
      = Returned \<lparr>message = ''not a ratio'',
                  field = \<lparr>name = ''ratio'', options = no_options\<lparr>defaultValue := Some JNaN\<rparr>\<rparr>,
                  badValue = JNaN\<rparr>"
  by (simp add: validate_def Let_def getValue_def getDefaultValue_def hasValue_def
      isGenerated_def get_or_def no_options_def)

text \<open>
  C8, as the code has it: \<^verbatim>\<open>getDisplay\<close> returns the string form of the effective value
  when that value is truthy and has a string form; it returns the empty string when the
  effective value is falsy, that is \<^verbatim>\<open>undefined\<close>, \<^verbatim>\<open>null\<close>, \<^verbatim>\<open>false\<close>, \<open>0\<close>,
  \<^verbatim>\<open>NaN\<close> or the empty string, or has no string form.
\<close>

theorem getDisplay_falsy_or_string_form:
  "getDisplay t v =
     (let e = getValue t v JUndefined
      in if e \<in> {JUndefined, JNull, JBool False, JNum 0, JNaN, JStr []} \<or> \<not> has_toString e
         then [] else toString e)"
  by (simp add: getDisplay_def Let_def truthy_iff)

theorem getDisplay_falsy_or_string_form_witness:
  "getDisplay \<lparr>name = ''age'', options = no_options\<rparr> (JNum 42) = ''42''
   \<and> getDisplay \<lparr>name = ''age'', options = no_options\<rparr> JUndefined = []
   \<and> getDisplay \<lparr>name = ''age'', options = no_options\<rparr> (JObject 1 None) = []"
  using
    getDisplay_falsy_or_string_form [of "\<lparr>name = ''age'', options = no_options\<rparr>" "JNum 42"]
    getDisplay_falsy_or_string_form [of "\<lparr>name = ''age'', options = no_options\<rparr>" JUndefined]
    getDisplay_falsy_or_string_form [of "\<lparr>name = ''age'', options = no_options\<rparr>" "JObject 1 None"]
  by (simp add: getValue_def isGenerated_def get_or_def no_options_def getDefaultValue_def
      string_of_int_def string_of_nat.simps digit_char_def)

text \<open>
  C8, as the claim states it, fails at the value \<open>0\<close> of a data type without options: the
  effective value is \<open>0\<close>, it is a value (\<^verbatim>\<open>hasValue\<close>) and its string form is
  \<^verbatim>\<open>"0"\<close>, yet \<^verbatim>\<open>getDisplay\<close> returns the empty string.
\<close>

theorem getDisplay_zero_counterexample:
  "getValue \<lparr>name = ''age'', options = no_options\<rparr> (JNum 0) JUndefined = JNum 0
   \<and> hasValue \<lparr>name = ''age'', options = no_options\<rparr> (JNum 0) True
   \<and> has_toString (JNum 0)
   \<and> toString (JNum 0) = ''0''
   \<and> getDisplay \<lparr>name = ''age'', options = no_options\<rparr> (JNum 0) = []"
  by (simp add: getDisplay_def getValue_def isGenerated_def get_or_def no_options_def
      string_of_int_def string_of_nat.simps digit_char_def hasValue_def getDefaultValue_def)

text \<open>
  C10: \<^verbatim>\<open>validate\<close> never looks at the \<^verbatim>\<open>validator\<close> option. Two data types that
  differ in that option only validate every value alike, with every callback: the results
  are the same but for the data type that an error refers to, which is the validated one.
  Without a callback nothing but \<^verbatim>\<open>validate\<close>'s own checks runs: the result is never
  the result of a custom check.
\<close>

theorem validate_ignores_validator:
  "validate (t\<lparr>options := (options t)\<lparr>validator := f\<rparr>\<rparr>) v callback =
     (case validate (t\<lparr>options := (options t)\<lparr>validator := g\<rparr>\<rparr>) v callback of
        Error e \<Rightarrow> Error (e\<lparr>field := t\<lparr>options := (options t)\<lparr>validator := f\<rparr>\<rparr>\<rparr>)
      | other \<Rightarrow> other)
   \<and> (\<forall>r. validate t v None \<noteq> Returned r)"
  by (simp add: validate_def Let_def getValue_def getDefaultValue_def hasValue_def
      isGenerated_def isRequired_def get_or_def split: option.splits)

section \<open>Properties of the refs\<close>

text \<open>
  C7: every ref is single exactly when it is not multi; the filter and map refs are multi,
  the direct-key, view and find refs are single.
\<close>

theorem single_xor_multi:
  "isSingleRef r = (\<not> isMultiRef r)
   \<and> isMultiRef (ImmutableListFilterRef w) \<and> isMultiRef (ImmutableListMapRef w)
   \<and> isSingleRef (ImmutableRef key) \<and> isSingleRef (ImmutableViewRef u)
   \<and> isSingleRef (ImmutableListFindRef w)"
  by (simp add: isMultiRef_def)

subsection \<open>The direct-key ref\<close>

text \<open>
  C9: on an absent container (\<^verbatim>\<open>null\<close> or \<^verbatim>\<open>undefined\<close>) \<^verbatim>\<open>setValue\<close> of a direct-key
  ref throws, whatever the key, and so also for the identity ref with the empty key (the
  test for the container comes first); \<^verbatim>\<open>getValue\<close> returns \<^verbatim>\<open>null\<close> and does not
  throw.
\<close>

theorem direct_key_absent_container:
  "ImmutableRef_setValue grow key nullC new = Inl CannotSetOnNull
   \<and> ImmutableRef_setValue grow key undefinedC new = Inl CannotSetOnNull
   \<and> ImmutableRef_setValue grow (JStr []) nullC new = Inl CannotSetOnNull
   \<and> ImmutableRef_setValue grow (JStr []) undefinedC new = Inl CannotSetOnNull
   \<and> ImmutableRef_getValue key nullC = Inr nullC
   \<and> ImmutableRef_getValue key undefinedC = Inr nullC"
  by (simp add: ImmutableRef_setValue_def ImmutableRef_getValue_def)

lemma list_set_inside:
  assumes "wrapIndex xs key = Some i" and "0 \<le> i" and "i < int (length xs)"
  shows "list_set grow xs key v = Inr (xs[nat i := v])"
  using assms by (simp add: list_set_def)

lemma wrapIndex_length: "length ys = length xs \<Longrightarrow> wrapIndex ys key = wrapIndex xs key"
  by (cases key) simp_all

lemma list_get_inside:
  assumes "wrapIndex xs key = Some i" and "0 \<le> i" and "i < int (length xs)"
  shows "list_get (xs[nat i := v]) key = v"
proof -
  have "wrapIndex (xs[nat i := v]) key = wrapIndex xs key"
    by (rule wrapIndex_length) simp
  then have "wrapIndex (xs[nat i := v]) key = Some i"
    using assms(1) by simp
  then show ?thesis
    using assms(2,3) by (simp add: list_get_def)
qed

text \<open>Outside the list, and for a key that is no index, \<^verbatim>\<open>get\<close> finds nothing.\<close>

lemma list_get_outside:
  "wrapIndex xs key = None \<or> (\<exists>i. wrapIndex xs key = Some i \<and> (i < 0 \<or> int (length xs) \<le> i))
     \<Longrightarrow> list_get xs key = undefinedC"
  by (auto simp: list_get_def)

lemma map_get_set: "map_of (AList.update key v m) key = Some v"
  by (simp add: update_conv')

text \<open>
  C5, as the code has it: for a truthy key (a non-empty string, a number other than 0)
  and a persistent map, or a persistent list in which the key is the index of an item (a
  number, counted from the end when negative, or an array index written as a string),
  \<^verbatim>\<open>setValue\<close> returns a container in which \<^verbatim>\<open>getValue\<close> finds the value written, and
  the container given is after the call what it was before. Nothing is said of a list and
  an index outside it.
\<close>

theorem direct_key_round_trip:
  assumes "truthy key"
    and "(\<exists>m. c = IMap m)
         \<or> (\<exists>xs i. c = IList xs \<and> wrapIndex xs key = Some i \<and> 0 \<le> i \<and> i < int (length xs))"
  shows "\<exists>c'. ImmutableRef_setValue grow key c v = Inr (c, c')
              \<and> ImmutableRef_getValue key c' = Inr v"
  using assms(2)
proof (elim disjE exE conjE)
  fix m assume "c = IMap m"
  then show ?thesis
    using assms(1) by (simp add: ImmutableRef_setValue_def ImmutableRef_getValue_def map_get_set)
next
  fix xs i
  assume c: "c = IList xs" and i: "wrapIndex xs key = Some i" "0 \<le> i" "i < int (length xs)"
  have "list_set grow xs key v = Inr (xs[nat i := v])"
    using i by (rule list_set_inside)
  moreover have "list_get (xs[nat i := v]) key = v"
    using i by (rule list_get_inside)
  ultimately show ?thesis
    using assms(1) c by (simp add: ImmutableRef_setValue_def ImmutableRef_getValue_def)
qed

lemma string_of_nat_digit: "n < 10 \<Longrightarrow> string_of_nat n = [digit_char n]"
  by (subst string_of_nat.simps) simp

lemma array_index_1: "array_index ''1'' = Some 1"
proof -
  have "nat_of_digits ''1'' = 1"
    by (simp add: nat_of_digits_def)
  moreover have "string_of_nat 1 = ''1''"
    by (simp add: string_of_nat_digit digit_char_def)
  ultimately show ?thesis
    by (simp add: array_index_def is_digit_def)
qed

text \<open>
  A map with the key \<^verbatim>\<open>"k"\<close>, and the list \<^verbatim>\<open>[a, b]\<close> with the keys \<open>1\<close>, \<open>-2\<close> and
  \<^verbatim>\<open>"1"\<close>, whatever the library does outside a list.
\<close>

theorem direct_key_round_trip_witness:
  "\<forall>grow.
     (\<exists>c'. ImmutableRef_setValue grow (JStr ''k'') (IMap [(JStr ''k'', Scalar (JNum 1))])
                (Scalar (JNum 2))
              = Inr (IMap [(JStr ''k'', Scalar (JNum 1))], c')
            \<and> ImmutableRef_getValue (JStr ''k'') c' = Inr (Scalar (JNum 2)))
     \<and> (\<exists>c'. ImmutableRef_setValue grow (JNum 1) (IList [Scalar (JStr ''a''), Scalar (JStr ''b'')])
                (Scalar (JStr ''v''))
              = Inr (IList [Scalar (JStr ''a''), Scalar (JStr ''b'')], c')
            \<and> ImmutableRef_getValue (JNum 1) c' = Inr (Scalar (JStr ''v'')))
     \<and> (\<exists>c'. ImmutableRef_setValue grow (JNum (- 2))
                (IList [Scalar (JStr ''a''), Scalar (JStr ''b'')]) (Scalar (JStr ''v''))
              = Inr (IList [Scalar (JStr ''a''), Scalar (JStr ''b'')], c')
            \<and> ImmutableRef_getValue (JNum (- 2)) c' = Inr (Scalar (JStr ''v'')))
     \<and> (\<exists>c'. ImmutableRef_setValue grow (JStr ''1'')
                (IList [Scalar (JStr ''a''), Scalar (JStr ''b'')]) (Scalar (JStr ''v''))
              = Inr (IList [Scalar (JStr ''a''), Scalar (JStr ''b'')], c')
            \<and> ImmutableRef_getValue (JStr ''1'') c' = Inr (Scalar (JStr ''v'')))"
proof (intro allI conjI)
  fix grow :: list_growth
  show "\<exists>c'. ImmutableRef_setValue grow (JStr ''k'') (IMap [(JStr ''k'', Scalar (JNum 1))])
                (Scalar (JNum 2))
              = Inr (IMap [(JStr ''k'', Scalar (JNum 1))], c')
            \<and> ImmutableRef_getValue (JStr ''k'') c' = Inr (Scalar (JNum 2))"
    by (rule direct_key_round_trip) simp_all
  show "\<exists>c'. ImmutableRef_setValue grow (JNum 1) (IList [Scalar (JStr ''a''), Scalar (JStr ''b'')])
                (Scalar (JStr ''v''))
              = Inr (IList [Scalar (JStr ''a''), Scalar (JStr ''b'')], c')
            \<and> ImmutableRef_getValue (JNum 1) c' = Inr (Scalar (JStr ''v''))"
    by (rule direct_key_round_trip) simp_all
  show "\<exists>c'. ImmutableRef_setValue grow (JNum (- 2))
                (IList [Scalar (JStr ''a''), Scalar (JStr ''b'')]) (Scalar (JStr ''v''))
              = Inr (IList [Scalar (JStr ''a''), Scalar (JStr ''b'')], c')
            \<and> ImmutableRef_getValue (JNum (- 2)) c' = Inr (Scalar (JStr ''v''))"
    by (rule direct_key_round_trip) simp_all
  show "\<exists>c'. ImmutableRef_setValue grow (JStr ''1'')
                (IList [Scalar (JStr ''a''), Scalar (JStr ''b'')]) (Scalar (JStr ''v''))
              = Inr (IList [Scalar (JStr ''a''), Scalar (JStr ''b'')], c')
            \<and> ImmutableRef_getValue (JStr ''1'') c' = Inr (Scalar (JStr ''v''))"
    by (rule direct_key_round_trip) (simp_all add: array_index_1)
qed

text \<open>
  C5, as the claim states it, fails for a persistent list and the key \<^verbatim>\<open>"k"\<close>, which
  is no index: \<^verbatim>\<open>setValue\<close> returns the list as it was, and \<^verbatim>\<open>getValue\<close> finds
  \<^verbatim>\<open>undefined\<close> in it, not the value written. The library's treatment of indices outside
  a list is not reached; it is given here as one that returns the list.
\<close>

theorem direct_key_round_trip_counterexample:
  "ImmutableRef_setValue (\<lambda>xs i v. Inr xs) (JStr ''k'') (IList [Scalar (JStr ''a'')])
       (Scalar (JStr ''v''))
     = Inr (IList [Scalar (JStr ''a'')], IList [Scalar (JStr ''a'')])
   \<and> ImmutableRef_getValue (JStr ''k'') (IList [Scalar (JStr ''a'')]) = Inr undefinedC"
  by (simp add: ImmutableRef_setValue_def ImmutableRef_getValue_def list_set_def list_get_def
      array_index_def is_digit_def)

subsection \<open>The find ref\<close>

lemma findIndex_from_none:
  "\<forall>x\<in>set xs. \<not> is_truthy (p x) \<Longrightarrow> findIndex_from i p xs = - 1"
  by (induction xs arbitrary: i) simp_all

lemma findIndex_from_first:
  "n < length xs \<Longrightarrow> is_truthy (p (xs ! n)) \<Longrightarrow> \<forall>j<n. \<not> is_truthy (p (xs ! j))
     \<Longrightarrow> findIndex_from i p xs = i + int n"
proof (induction xs arbitrary: i n)
  case Nil
  then show ?case by simp
next
  case (Cons x xs)
  show ?case
  proof (cases n)
    case 0
    with Cons.prems show ?thesis by simp
  next
    case (Suc m)
    with Cons.prems have "\<not> is_truthy (p x)" by auto
    moreover have "findIndex_from (i + 1) p xs = i + 1 + int m"
    proof (rule Cons.IH)
      show "m < length xs" using Cons.prems Suc by simp
      show "is_truthy (p (xs ! m))" using Cons.prems Suc by simp
      show "\<forall>j<m. \<not> is_truthy (p (xs ! j))"
      proof (intro allI impI)
        fix j assume "j < m"
        then have "Suc j < n" using Suc by simp
        with Cons.prems(3) have "\<not> is_truthy (p ((x # xs) ! Suc j))" by blast
        then show "\<not> is_truthy (p (xs ! j))" by simp
      qed
    qed
    ultimately show ?thesis using Suc by simp
  qed
qed

lemma list_set_in_range:
  "n < length xs \<Longrightarrow> list_set grow xs (JNum (int n)) v = Inr (xs[n := v])"
  by (simp add: list_set_def)

text \<open>
  C4: \<^verbatim>\<open>setValue\<close> of a find ref on a persistent list, under a list data type. The
  items are tried from the left. If the item at index \<open>n\<close> is the first whose view is
  truthy, the result is the list with the new item at index \<open>n\<close>, every other item and
  the size as they were; if no item's view is truthy, the result is the list with the new
  item appended. The list given is left as it was.
\<close>

theorem find_setValue_upsert:
  assumes "getItemType listType = Inr itemType"
  shows "(n < length xs
            \<and> is_truthy (ev view \<lparr>dataType = itemType, dataValue = xs ! n, renderOptions = opts\<rparr>)
            \<and> (\<forall>j<n. \<not> is_truthy
                  (ev view \<lparr>dataType = itemType, dataValue = xs ! j, renderOptions = opts\<rparr>))
            \<longrightarrow> ref_setValue grow ev (ImmutableListFindRef view) listType (IList xs) newItem opts
                  = Inr (IList xs, IList (xs[n := newItem])))
       \<and> ((\<forall>x\<in>set xs.
              \<not> is_truthy (ev view \<lparr>dataType = itemType, dataValue = x, renderOptions = opts\<rparr>))
            \<longrightarrow> ref_setValue grow ev (ImmutableListFindRef view) listType (IList xs) newItem opts
                  = Inr (IList xs, IList (xs @ [newItem])))"
proof (intro conjI impI)
  assume first: "n < length xs
    \<and> is_truthy (ev view \<lparr>dataType = itemType, dataValue = xs ! n, renderOptions = opts\<rparr>)
    \<and> (\<forall>j<n. \<not> is_truthy
          (ev view \<lparr>dataType = itemType, dataValue = xs ! j, renderOptions = opts\<rparr>))"
  then have "findIndex_from 0
          (\<lambda>item. ev view \<lparr>dataType = itemType, dataValue = item, renderOptions = opts\<rparr>) xs
        = 0 + int n"
    by (intro findIndex_from_first) simp_all
  then show "ref_setValue grow ev (ImmutableListFindRef view) listType (IList xs) newItem opts
      = Inr (IList xs, IList (xs[n := newItem]))"
    using assms first by (simp add: ImmutableListFindRef_setValue_def list_set_in_range)
next
  assume "\<forall>x\<in>set xs.
    \<not> is_truthy (ev view \<lparr>dataType = itemType, dataValue = x, renderOptions = opts\<rparr>)"
  then have "findIndex_from 0
          (\<lambda>item. ev view \<lparr>dataType = itemType, dataValue = item, renderOptions = opts\<rparr>) xs
        = - 1"
    by (intro findIndex_from_none) simp
  then show "ref_setValue grow ev (ImmutableListFindRef view) listType (IList xs) newItem opts
      = Inr (IList xs, IList (xs @ [newItem]))"
    using assms by (simp add: ImmutableListFindRef_setValue_def)
qed

text \<open>
  The example of the spec: on \<^verbatim>\<open>[A, B, C]\<close>, a view that matches \<^verbatim>\<open>B\<close> gives
  \<^verbatim>\<open>[A, N, C]\<close>, and a view that matches nothing gives \<^verbatim>\<open>[A, B, C, N]\<close>.
\<close>

theorem find_setValue_upsert_witness:
  "\<forall>grow.
     ref_setValue grow (\<lambda>view rd. Scalar (JBool (dataValue rd = Scalar (JStr ''B''))))
         (ImmutableListFindRef ()) (ListType ''items'' (ScalarType ''item''))
         (IList [Scalar (JStr ''A''), Scalar (JStr ''B''), Scalar (JStr ''C'')])
         (Scalar (JStr ''N'')) ()
       = Inr (IList [Scalar (JStr ''A''), Scalar (JStr ''B''), Scalar (JStr ''C'')],
              IList [Scalar (JStr ''A''), Scalar (JStr ''N''), Scalar (JStr ''C'')])
     \<and> ref_setValue grow (\<lambda>view rd. Scalar (JBool False))
         (ImmutableListFindRef ()) (ListType ''items'' (ScalarType ''item''))
         (IList [Scalar (JStr ''A''), Scalar (JStr ''B''), Scalar (JStr ''C'')])
         (Scalar (JStr ''N'')) ()
       = Inr (IList [Scalar (JStr ''A''), Scalar (JStr ''B''), Scalar (JStr ''C'')],
              IList [Scalar (JStr ''A''), Scalar (JStr ''B''), Scalar (JStr ''C''),
                     Scalar (JStr ''N'')])"
proof
  fix grow :: list_growth
  show "ref_setValue grow (\<lambda>view rd. Scalar (JBool (dataValue rd = Scalar (JStr ''B''))))
         (ImmutableListFindRef ()) (ListType ''items'' (ScalarType ''item''))
         (IList [Scalar (JStr ''A''), Scalar (JStr ''B''), Scalar (JStr ''C'')])
         (Scalar (JStr ''N'')) ()
       = Inr (IList [Scalar (JStr ''A''), Scalar (JStr ''B''), Scalar (JStr ''C'')],
              IList [Scalar (JStr ''A''), Scalar (JStr ''N''), Scalar (JStr ''C'')])
     \<and> ref_setValue grow (\<lambda>view rd. Scalar (JBool False))
         (ImmutableListFindRef ()) (ListType ''items'' (ScalarType ''item''))
         (IList [Scalar (JStr ''A''), Scalar (JStr ''B''), Scalar (JStr ''C'')])
         (Scalar (JStr ''N'')) ()
       = Inr (IList [Scalar (JStr ''A''), Scalar (JStr ''B''), Scalar (JStr ''C'')],
              IList [Scalar (JStr ''A''), Scalar (JStr ''B''), Scalar (JStr ''C''),
                     Scalar (JStr ''N'')])"
    using
      find_setValue_upsert
        [where listType = "ListType ''items'' (ScalarType ''item'')"
           and itemType = "ScalarType ''item''" and n = 1
           and xs = "[Scalar (JStr ''A''), Scalar (JStr ''B''), Scalar (JStr ''C'')]"
           and ev = "\<lambda>view rd. Scalar (JBool (dataValue rd = Scalar (JStr ''B'')))"
           and view = "()" and opts = "()" and newItem = "Scalar (JStr ''N'')" and grow = grow]
      find_setValue_upsert
        [where listType = "ListType ''items'' (ScalarType ''item'')"
           and itemType = "ScalarType ''item''" and n = 0
           and xs = "[Scalar (JStr ''A''), Scalar (JStr ''B''), Scalar (JStr ''C'')]"
           and ev = "\<lambda>view rd. Scalar (JBool False)"
           and view = "()" and opts = "()" and newItem = "Scalar (JStr ''N'')" and grow = grow]
    by simp
qed

subsection \<open>The filter ref\<close>

lemma map2_indices:
  "map2 f xs (indices xs) = map (\<lambda>i. f (xs ! i) (Scalar (JNum (int i)))) [0..<length xs]"
  by (rule nth_equalityI) (simp_all add: indices_def)

lemma map2_ignore_index: "length ps = length ks \<Longrightarrow> map2 (\<lambda>p k. g p) ps ks = map g ps"
  by (induction ps ks rule: list_induct2) simp_all

lemma length_indices: "length (indices xs) = length xs"
  by (simp add: indices_def)

text \<open>
  What \<^verbatim>\<open>setValue\<close> of a filter ref returns for a persistent list under a list data
  type: a list of the same size that holds the new item at every index whose item
  matches, and at every other index the index itself, a number, where the item was.
\<close>

lemma filter_setValue_on_list:
  assumes "getItemType listType = Inr itemType"
  shows "ImmutableListFilterRef_setValue ev view listType (IList xs) newItem opts =
     Inr (IList xs,
          IList (map (\<lambda>i. if is_truthy (ev view \<lparr>dataType = itemType, dataValue = xs ! i,
                                                   renderOptions = opts\<rparr>)
                           then newItem else Scalar (JNum (int i)))
                   [0..<length xs]))"
proof -
  let ?P = "\<lambda>item.
    is_truthy (ev view \<lparr>dataType = itemType, dataValue = item, renderOptions = opts\<rparr>)"
  let ?pairs = "map2 (\<lambda>item index. JArray [index, item]) xs (indices xs)"
  let ?matching = "filter (\<lambda>pair. ?P (element_at pair 1)) ?pairs"
  let ?indexes = "map2 (\<lambda>pair key. element_at pair 0) ?matching (indices ?matching)"
  have pairs: "?pairs = map (\<lambda>i. JArray [Scalar (JNum (int i)), xs ! i]) [0..<length xs]"
    by (rule map2_indices)
  have "?indexes = map (\<lambda>pair. element_at pair 0) ?matching"
    by (rule map2_ignore_index) (simp add: length_indices)
  also have "\<dots> = map (\<lambda>i. Scalar (JNum (int i))) (filter (\<lambda>i. ?P (xs ! i)) [0..<length xs])"
    unfolding pairs by (simp add: filter_map comp_def)
  finally have indexes:
    "?indexes = map (\<lambda>i. Scalar (JNum (int i))) (filter (\<lambda>i. ?P (xs ! i)) [0..<length xs])" .
  have member: "js_includes (IList ?indexes) (Scalar (JNum (int i))) = ?P (xs ! i)"
    if "i < length xs" for i
    unfolding indexes js_includes_def using that by auto
  have "map2 (\<lambda>item index. if js_includes (IList ?indexes) index then newItem else index)
          xs (indices xs)
        = map (\<lambda>i. if js_includes (IList ?indexes) (Scalar (JNum (int i))) then newItem
                       else Scalar (JNum (int i))) [0..<length xs]"
    by (rule map2_indices)
  also have "\<dots> = map (\<lambda>i. if ?P (xs ! i) then newItem else Scalar (JNum (int i)))
                      [0..<length xs]"
    by (rule map_cong) (simp_all only: member atLeastLessThan_iff set_upt)
  finally have "map2 (\<lambda>item index. if js_includes (IList ?indexes) index then newItem else index)
          xs (indices xs)
        = map (\<lambda>i. if ?P (xs ! i) then newItem else Scalar (JNum (int i))) [0..<length xs]" .
  then show ?thesis
    using assms by (simp add: ImmutableListFilterRef_setValue_def)
qed

text \<open>
  C1: on \<^verbatim>\<open>[A, B, A]\<close>, with a view that matches the items equal to \<^verbatim>\<open>A\<close> and the new
  item \<^verbatim>\<open>N\<close>, \<^verbatim>\<open>setValue\<close> of a filter ref returns \<^verbatim>\<open>[N, 1, N]\<close>: the item \<^verbatim>\<open>B\<close>, which
  does not match, is replaced by its index.
\<close>

theorem filter_setValue_writes_index:
  "ref_setValue grow (\<lambda>view rd. Scalar (JBool (dataValue rd = Scalar (JStr ''A''))))
       (ImmutableListFilterRef ()) (ListType ''items'' (ScalarType ''item''))
       (IList [Scalar (JStr ''A''), Scalar (JStr ''B''), Scalar (JStr ''A'')])
       (Scalar (JStr ''N'')) ()
     = Inr (IList [Scalar (JStr ''A''), Scalar (JStr ''B''), Scalar (JStr ''A'')],
            IList [Scalar (JStr ''N''), Scalar (JNum 1), Scalar (JStr ''N'')])"
  by (simp add: ImmutableListFilterRef_setValue_def indices_def js_includes_def upt_rec)

subsection \<open>Validation of the data by the list refs\<close>

text \<open>
  What does hold: \<^verbatim>\<open>getValue\<close> of every list ref rejects a value that is falsy or not a
  persistent collection with the error of \<^verbatim>\<open>checkValidData\<close>, whatever the view
  evaluator is, so before any view is evaluated.
\<close>

lemma list_getValue_rejects_non_container:
  "\<not> is_truthy dv \<or> \<not> isImmutable dv \<Longrightarrow>
     ImmutableListRef_getValue ev meth view dt dv opts = Inl NonListValue"
  by (simp add: ImmutableListRef_getValue_def checkValidData_def not_type_def)

text \<open>No data type is rejected by \<^verbatim>\<open>checkValidData\<close>.\<close>

lemma checkValidData_accepts_every_type:
  "checkValidData dt dv \<noteq> Inl NonListDataType"
  by (simp add: checkValidData_def not_type_def)

text \<open>
  C2: what the list refs do with data that is not a persistent list under a list data
  type. For a data type that is not a list data type, \<^verbatim>\<open>getValue\<close> of a find ref
  passes \<^verbatim>\<open>checkValidData\<close> and fails at \<^verbatim>\<open>getItemType\<close> with the runtime's
  \<^verbatim>\<open>TypeError\<close>. \<^verbatim>\<open>getValue\<close> rejects a plain array with the error of
  \<^verbatim>\<open>checkValidData\<close>, but \<^verbatim>\<open>setValue\<close> does not call \<^verbatim>\<open>checkValidData\<close>: on a plain
  array \<^verbatim>\<open>setValue\<close> of a filter ref evaluates the view on the items and returns an
  array, and \<^verbatim>\<open>setValue\<close> of a find ref whose view matches nothing pushes the new item
  onto the array given and returns its new length.
\<close>

theorem list_refs_unchecked:
  "ref_getValue (\<lambda>view rd. Scalar (JBool (dataValue rd = Scalar (JStr ''A''))))
       (ImmutableListFindRef ()) (ScalarType ''item'')
       (IList [Scalar (JStr ''B''), Scalar (JStr ''A'')]) ()
     = Inl TypeError
   \<and> ref_getValue (\<lambda>view rd. Scalar (JBool (dataValue rd = Scalar (JStr ''A''))))
       (ImmutableListFindRef ()) (ListType ''items'' (ScalarType ''item''))
       (JArray [Scalar (JStr ''B''), Scalar (JStr ''A'')]) ()
     = Inl NonListValue
   \<and> ref_setValue grow (\<lambda>view rd. Scalar (JBool (dataValue rd = Scalar (JStr ''A''))))
       (ImmutableListFilterRef ()) (ListType ''items'' (ScalarType ''item''))
       (JArray [Scalar (JStr ''A''), Scalar (JStr ''B'')]) (Scalar (JStr ''N'')) ()
     = Inr (JArray [Scalar (JStr ''A''), Scalar (JStr ''B'')],
            JArray [Scalar (JStr ''N''), Scalar (JNum 1)])
   \<and> ref_setValue grow (\<lambda>view rd. Scalar (JBool (dataValue rd = Scalar (JStr ''A''))))
       (ImmutableListFindRef ()) (ListType ''items'' (ScalarType ''item''))
       (JArray [Scalar (JStr ''B'')]) (Scalar (JStr ''N'')) ()
     = Inr (JArray [Scalar (JStr ''B''), Scalar (JStr ''N'')], Scalar (JNum 2))"
  by (simp add: ImmutableListFilterRef_setValue_def ImmutableListFindRef_setValue_def
      ImmutableListRef_getValue_def checkValidData_def not_type_def
      indices_def js_includes_def upt_rec)

end
